theory Spec2Isabelle
  imports Main "HOL-Library.Dlist"
begin

section \<open>Enumerations (base.ts, networks.ts)\<close>

text \<open>
  The \<^verbatim>\<open>const enum\<close>s of the source. Every member is a string literal at run time;
  \<open>CoinFamily_value\<close> and \<open>NetworkType_value\<close> give the literal of the members that the
  network classes store in their fields.
\<close>

datatype CoinKind = CRYPTO | FIAT

datatype CoinFamily =
  ALGO | BCH | BSV | BTC | BTG | DASH | ETH | EOS | LTC | OFC | RMG | SUSD | XLM | XRP | ZEC

fun CoinFamily_value :: "CoinFamily \<Rightarrow> string" where
  "CoinFamily_value ALGO = ''algo''"
| "CoinFamily_value BCH = ''bch''"
| "CoinFamily_value BSV = ''bsv''"
| "CoinFamily_value BTC = ''btc''"
| "CoinFamily_value BTG = ''btg''"
| "CoinFamily_value DASH = ''dash''"
| "CoinFamily_value ETH = ''eth''"
| "CoinFamily_value EOS = ''eos''"
| "CoinFamily_value LTC = ''ltc''"
| "CoinFamily_value OFC = ''ofc''"
| "CoinFamily_value RMG = ''rmg''"
| "CoinFamily_value SUSD = ''susd''"
| "CoinFamily_value XLM = ''xlm''"
| "CoinFamily_value XRP = ''xrp''"
| "CoinFamily_value ZEC = ''zec''"

datatype CoinFeature =
  VALUELESS_TRANSFER
| TRANSACTION_DATA
| REQUIRES_BIG_NUMBER
| REQUIRES_KRS_BACKUP_KEY
| PAYGO
| UNSPENT_MODEL
| ACCOUNT_MODEL
| CHILD_PAYS_FOR_PARENT
| WRAPPED_SEGWIT
| NATIVE_SEGWIT
| SUPPORTS_TOKENS

datatype NetworkType = MAINNET | TESTNET

fun NetworkType_value :: "NetworkType \<Rightarrow> string" where
  "NetworkType_value MAINNET = ''mainnet''"
| "NetworkType_value TESTNET = ''testnet''"

text \<open>
  \<^verbatim>\<open>UnderlyingAsset\<close> is a \<^verbatim>\<open>const enum\<close> of 266 string-valued members. The constructor
  only copies the value it is given, so an asset is represented by its run-time value,
  the string literal of the member (\<^verbatim>\<open>UnderlyingAsset.BTC\<close> is \<open>''btc''\<close>).
\<close>

type_synonym UnderlyingAsset = string

section \<open>Objects and classes of networks.ts\<close>

text \<open>
  The network classes are plain JavaScript classes whose bodies hold field initialisers
  only. A value is \<^verbatim>\<open>undefined\<close>, a string, a number (every number literal of the file
  is an integer) or an object literal, which is a list of properties.
\<close>

datatype jsval =
  JSUndefined
| JSString string
| JSNumber int
| JSObject "(string \<times> jsval) list"

text \<open>
  A class has an optional superclass (\<^verbatim>\<open>extends\<close>), its field initialisers in source
  order, and the members of its prototype object. A field initialiser
  \<^verbatim>\<open>f = e\<close> of a class body runs in the constructor, as \<^verbatim>\<open>this.f = e\<close>; it puts
  nothing on the prototype. The prototype holds the methods and accessors of the class
  body, and networks.ts declares none.
\<close>

datatype jsclass =
  JSClass (super: "jsclass option") (fields: "(string \<times> jsval) list")
    (methods: "(string \<times> jsval) list")

text \<open>
  \<open>prototype_get C p\<close> is the expression \<^verbatim>\<open>C.prototype.p\<close>: the property is looked up
  on the prototype of \<open>C\<close>, then along the prototype chain of its superclasses; a property
  found nowhere reads as \<^verbatim>\<open>undefined\<close>. The chain ends in \<^verbatim>\<open>Object.prototype\<close>, which
  has none of the properties that networks.ts reads (\<^verbatim>\<open>family\<close>, \<^verbatim>\<open>messagePrefix\<close>).
\<close>

fun prototype_get :: "jsclass \<Rightarrow> string \<Rightarrow> jsval" where
  "prototype_get (JSClass None fs ms) p =
     (case map_of ms p of Some v \<Rightarrow> v | None \<Rightarrow> JSUndefined)"
| "prototype_get (JSClass (Some c) fs ms) p =
     (case map_of ms p of Some v \<Rightarrow> v | None \<Rightarrow> prototype_get c p)"

text \<open>\<open>assign obj (p, v)\<close> is \<^verbatim>\<open>obj.p = v\<close> on the own properties of an object.\<close>

fun assign :: "(string \<times> jsval) list \<Rightarrow> string \<times> jsval \<Rightarrow> (string \<times> jsval) list" where
  "assign [] (p, v) = [(p, v)]"
| "assign ((q, w) # obj) (p, v) =
     (if q = p then (q, v) # obj else (q, w) # assign obj (p, v))"

text \<open>
  \<open>construct C\<close> gives the own properties that \<^verbatim>\<open>new C()\<close> sets: the superclass
  constructor runs first, then the field initialisers of \<open>C\<close> in source order.
\<close>

fun construct :: "jsclass \<Rightarrow> (string \<times> jsval) list" where
  "construct (JSClass None fs ms) = foldl assign [] fs"
| "construct (JSClass (Some c) fs ms) = foldl assign (construct c) fs"

datatype jsobject = Instance (own: "(string \<times> jsval) list") (class_of: jsclass)

definition new :: "jsclass \<Rightarrow> jsobject" where
  "new C = Instance (construct C) C"

text \<open>\<open>get obj p\<close> is the property read \<^verbatim>\<open>obj.p\<close>: own properties first, then the prototype chain.\<close>

fun get :: "jsobject \<Rightarrow> string \<Rightarrow> jsval" where
  "get (Instance props C) p =
     (case map_of props p of Some v \<Rightarrow> v | None \<Rightarrow> prototype_get C p)"

text \<open>
  \<^verbatim>\<open>Object.freeze\<close> returns its argument; it forbids later writes, and nothing writes to a
  network after its construction.
\<close>

definition Object_freeze :: "jsobject \<Rightarrow> jsobject" where
  "Object_freeze obj = obj"

subsection \<open>The network classes\<close>

definition Mainnet :: jsclass where
  "Mainnet = JSClass None [(''type'', JSString (NetworkType_value MAINNET))] []"

definition Testnet :: jsclass where
  "Testnet = JSClass None [(''type'', JSString (NetworkType_value TESTNET))] []"

definition Ethereum :: jsclass where
  "Ethereum = JSClass (Some Mainnet) [(''family'', JSString (CoinFamily_value ETH))] []"

definition Kovan :: jsclass where
  "Kovan = JSClass (Some Testnet) [(''family'', prototype_get Ethereum ''family'')] []"

definition BTC_FAMILY_MAINNET_BIP32_PUBLIC :: int where
  "BTC_FAMILY_MAINNET_BIP32_PUBLIC = 0x0488b21e"

definition BTC_FAMILY_MAINNET_BIP32_PRIVATE :: int where
  "BTC_FAMILY_MAINNET_BIP32_PRIVATE = 0x0488ade4"

definition BTC_FAMILY_WIF :: int where
  "BTC_FAMILY_WIF = 0x80"

definition Bitcoin :: jsclass where
  "Bitcoin = JSClass (Some Mainnet)
     [(''messagePrefix'', JSString (CHR 0x18 # ''Bitcoin Signed Message:'' @ [CHR 0x0A])),
      (''bech32'', JSString ''bc''),
      (''bip32'', JSObject [(''public'', JSNumber BTC_FAMILY_MAINNET_BIP32_PUBLIC),
                           (''private'', JSNumber BTC_FAMILY_MAINNET_BIP32_PRIVATE)]),
      (''pubKeyHash'', JSNumber 0x00),
      (''scriptHash'', JSNumber 0x05),
      (''wif'', JSNumber BTC_FAMILY_WIF),
      (''family'', JSString (CoinFamily_value BTC))] []"

definition BitcoinTestnet :: jsclass where
  "BitcoinTestnet = JSClass (Some Testnet)
     [(''bech32'', JSString ''tb''),
      (''bip32'', JSObject [(''public'', JSNumber 0x043587cf),
                           (''private'', JSNumber 0x04358394)]),
      (''pubKeyHash'', JSNumber 0x6f),
      (''scriptHash'', JSNumber 0xc4),
      (''wif'', JSNumber 0xef),
      (''messagePrefix'', prototype_get Bitcoin ''messagePrefix''),
      (''family'', prototype_get Bitcoin ''family'')] []"

definition BitcoinGold :: jsclass where
  "BitcoinGold = JSClass (Some Mainnet)
     [(''messagePrefix'', JSString (CHR 0x18 # ''Bitcoin Gold Signed Message:'' @ [CHR 0x0A])),
      (''bech32'', JSString ''btg''),
      (''bip32'', JSObject [(''public'', JSNumber BTC_FAMILY_MAINNET_BIP32_PUBLIC),
                           (''private'', JSNumber BTC_FAMILY_MAINNET_BIP32_PRIVATE)]),
      (''pubKeyHash'', JSNumber 0x26),
      (''scriptHash'', JSNumber 0x17),
      (''wif'', JSNumber BTC_FAMILY_WIF),
      (''family'', JSString (CoinFamily_value BTG))] []"

definition Litecoin :: jsclass where
  "Litecoin = JSClass (Some Mainnet)
     [(''messagePrefix'', JSString (CHR 0x19 # ''Litecoin Signed Message:'' @ [CHR 0x0A])),
      (''bech32'', JSString ''ltc''),
      (''bip32'', JSObject [(''public'', JSNumber BTC_FAMILY_MAINNET_BIP32_PUBLIC),
                           (''private'', JSNumber BTC_FAMILY_MAINNET_BIP32_PRIVATE)]),
      (''pubKeyHash'', JSNumber 0x30),
      (''scriptHash'', JSNumber 0x32),
      (''wif'', JSNumber 0xb0),
      (''family'', JSString (CoinFamily_value LTC))] []"

definition LitecoinTestnet :: jsclass where
  "LitecoinTestnet = JSClass (Some Testnet)
     [(''bech32'', JSString ''tltc''),
      (''bip32'', JSObject [(''public'', JSNumber BTC_FAMILY_MAINNET_BIP32_PUBLIC),
                           (''private'', JSNumber BTC_FAMILY_MAINNET_BIP32_PRIVATE)]),
      (''pubKeyHash'', JSNumber 0x6f),
      (''scriptHash'', JSNumber 0x3a),
      (''wif'', JSNumber 0xb0),
      (''messagePrefix'', prototype_get Litecoin ''messagePrefix''),
      (''family'', prototype_get Litecoin ''family'')] []"

definition Ripple :: jsclass where
  "Ripple = JSClass (Some Mainnet) [(''family'', JSString (CoinFamily_value XRP))] []"

definition RippleTestnet :: jsclass where
  "RippleTestnet = JSClass (Some Testnet) [(''family'', prototype_get Ripple ''family'')] []"

definition Stellar :: jsclass where
  "Stellar = JSClass (Some Mainnet) [(''family'', JSString (CoinFamily_value XLM))] []"

definition StellarTestnet :: jsclass where
  "StellarTestnet = JSClass (Some Testnet) [(''family'', prototype_get Stellar ''family'')] []"

subsection \<open>The catalog \<^verbatim>\<open>Networks\<close>\<close>

definition Networks_main_bitcoin :: jsobject where
  "Networks_main_bitcoin = Object_freeze (new Bitcoin)"

definition Networks_main_bitcoinGold :: jsobject where
  "Networks_main_bitcoinGold = Object_freeze (new BitcoinGold)"

definition Networks_main_litecoin :: jsobject where
  "Networks_main_litecoin = Object_freeze (new Litecoin)"

definition Networks_main_ethereum :: jsobject where
  "Networks_main_ethereum = Object_freeze (new Ethereum)"

definition Networks_main_ripple :: jsobject where
  "Networks_main_ripple = Object_freeze (new Ripple)"

definition Networks_main_stellar :: jsobject where
  "Networks_main_stellar = Object_freeze (new Stellar)"

definition Networks_test_bitcoin :: jsobject where
  "Networks_test_bitcoin = Object_freeze (new BitcoinTestnet)"

definition Networks_test_litecoin :: jsobject where
  "Networks_test_litecoin = Object_freeze (new LitecoinTestnet)"

definition Networks_test_kovan :: jsobject where
  "Networks_test_kovan = Object_freeze (new Kovan)"

definition Networks_test_ripple :: jsobject where
  "Networks_test_ripple = Object_freeze (new RippleTestnet)"

definition Networks_test_stellar :: jsobject where
  "Networks_test_stellar = Object_freeze (new StellarTestnet)"

section \<open>Coins (base.ts)\<close>

subsection \<open>Sets of features\<close>

text \<open>
  A JavaScript \<^verbatim>\<open>Set\<close> holds each element once and enumerates its elements in
  insertion order: a list without duplicates. \<open>Set_has\<close>, \<open>Set_delete\<close> and
  \<open>Set_size\<close> are the methods \<^verbatim>\<open>has\<close> and \<^verbatim>\<open>delete\<close> and the property
  \<^verbatim>\<open>size\<close>; \<open>Array_from\<close> is \<^verbatim>\<open>Array.from\<close> on a set.
\<close>

type_synonym 'a JSSet = "'a dlist"

definition Set_has :: "'a JSSet \<Rightarrow> 'a \<Rightarrow> bool" where
  "Set_has s x = Dlist.member s x"

definition Set_delete :: "'a JSSet \<Rightarrow> 'a \<Rightarrow> 'a JSSet" where
  "Set_delete s x = Dlist.remove x s"

definition Set_size :: "'a JSSet \<Rightarrow> nat" where
  "Set_size s = Dlist.length s"

definition Array_from :: "'a JSSet \<Rightarrow> 'a list" where
  "Array_from s = list_of_dlist s"

subsection \<open>Options, coins and errors\<close>

text \<open>
  An optional property (\<^verbatim>\<open>prefix?: string\<close>) is an \<open>option\<close>. The network is an
  object of networks.ts.
\<close>

record BaseCoinConstructorOptions =
  fullName :: string
  name :: string
  prefix :: "string option"
  suffix :: "string option"
  kind :: CoinKind
  isToken :: bool
  features :: "CoinFeature list"
  decimalPlaces :: int
  asset :: UnderlyingAsset
  network :: jsobject

text \<open>
  The fields of a \<^verbatim>\<open>BaseCoin\<close>. The field \<open>family\<close> holds what the property read
  \<^verbatim>\<open>options.network.family\<close> returns.
\<close>

record BaseCoin =
  fullName :: string
  name :: string
  prefix :: "string option"
  suffix :: "string option"
  kind :: CoinKind
  family :: jsval
  isToken :: bool
  features :: "CoinFeature list"
  network :: jsobject
  decimalPlaces :: int
  asset :: UnderlyingAsset

text \<open>The three errors of errors.ts, each with the arguments its constructor is given.\<close>

datatype CoinError =
  ConflictingCoinFeaturesError string "CoinFeature list"
| DisallowedCoinFeatureError string CoinFeature
| MissingRequiredCoinFeatureError string "CoinFeature list"

subsection \<open>Validation\<close>

text \<open>
  \<^verbatim>\<open>validateOptions\<close> reaches three objects: the set that \<^verbatim>\<open>this.requiredFeatures()\<close>
  returned, the set that \<^verbatim>\<open>this.disallowedFeatures()\<close> returned, and the options. The
  heap records the contents of the three; the function returns its outcome (\<open>Inl\<close> the
  error thrown, \<open>Inr ()\<close> a normal return) with the heap it leaves. The two methods are
  abstract in \<^verbatim>\<open>BaseCoin\<close>: whether the set that one of them returns is a new object at
  every call, or one that the coin class keeps, is left to the subclass.
\<close>

record Heap =
  requiredFeatures :: "CoinFeature JSSet"
  disallowedFeatures :: "CoinFeature JSSet"
  options :: BaseCoinConstructorOptions

text \<open>The loop \<^verbatim>\<open>for (const feature of options.features)\<close>, on the features still to visit.\<close>

fun validateOptions_loop :: "Heap \<Rightarrow> CoinFeature list \<Rightarrow> (CoinError + unit) \<times> Heap" where
  "validateOptions_loop h [] = (Inr (), h)"
| "validateOptions_loop h (feature # rest) =
     (if Set_has (disallowedFeatures h) feature
      then (Inl (DisallowedCoinFeatureError (BaseCoinConstructorOptions.name (options h)) feature), h)
      else validateOptions_loop
             (if Set_has (requiredFeatures h) feature
              then h\<lparr>requiredFeatures := Set_delete (requiredFeatures h) feature\<rparr>
              else h)
             rest)"

definition validateOptions :: "Heap \<Rightarrow> (CoinError + unit) \<times> Heap" where
  "validateOptions h =
     (let intersectionFeatures =
            filter (\<lambda>feat. Set_has (disallowedFeatures h) feat) (Array_from (requiredFeatures h))
      in if length intersectionFeatures > 0
         then (Inl (ConflictingCoinFeaturesError (BaseCoinConstructorOptions.name (options h))
                      intersectionFeatures), h)
         else (case validateOptions_loop h (BaseCoinConstructorOptions.features (options h)) of
                 (Inl e, h') \<Rightarrow> (Inl e, h')
               | (Inr u, h') \<Rightarrow>
                   if Set_size (requiredFeatures h') > 0
                   then (Inl (MissingRequiredCoinFeatureError
                                (BaseCoinConstructorOptions.name (options h'))
                                (Array_from (requiredFeatures h'))), h')
                   else (Inr (), h')))"

subsection \<open>Construction\<close>

text \<open>
  The constructor of \<^verbatim>\<open>BaseCoin\<close>: validation first; an error thrown there leaves the
  constructor before any field is set, and the \<^verbatim>\<open>new\<close> expression yields no object.
\<close>

definition BaseCoin_constructor :: "Heap \<Rightarrow> (CoinError + BaseCoin) \<times> Heap" where
  "BaseCoin_constructor h =
     (case validateOptions h of
        (Inl e, h') \<Rightarrow> (Inl e, h')
      | (Inr u, h') \<Rightarrow>
          (Inr \<lparr> BaseCoin.fullName = BaseCoinConstructorOptions.fullName (options h'),
                 BaseCoin.name = BaseCoinConstructorOptions.name (options h'),
                 BaseCoin.prefix = BaseCoinConstructorOptions.prefix (options h'),
                 BaseCoin.suffix = BaseCoinConstructorOptions.suffix (options h'),
                 BaseCoin.kind = BaseCoinConstructorOptions.kind (options h'),
                 BaseCoin.family = get (BaseCoinConstructorOptions.network (options h')) ''family'',
                 BaseCoin.isToken = BaseCoinConstructorOptions.isToken (options h'),
                 BaseCoin.features = BaseCoinConstructorOptions.features (options h'),
                 BaseCoin.network = BaseCoinConstructorOptions.network (options h'),
                 BaseCoin.decimalPlaces = BaseCoinConstructorOptions.decimalPlaces (options h'),
                 BaseCoin.asset = BaseCoinConstructorOptions.asset (options h') \<rparr>, h'))"

subsection \<open>The objects behind the options and the coin\<close>

text \<open>
  The definitions above take the options by their contents at the time of the call. In
  the program \<^verbatim>\<open>options.features\<close> is an array, an object that the caller holds by
  reference and can change at any time (\<^verbatim>\<open>push\<close>); the assignment
  \<^verbatim>\<open>this.features = options.features\<close> copies the reference, not the array. A store gives
  the contents of every array. An options object and a coin object have the fields of the
  source, with the reference of the array in \<open>features\<close>; their other fields hold
  strings, numbers and booleans, which are values, and the network.
\<close>

type_synonym array_ref = nat

type_synonym Store = "array_ref \<Rightarrow> CoinFeature list"

record OptionsObject =
  fullName :: string
  name :: string
  prefix :: "string option"
  suffix :: "string option"
  kind :: CoinKind
  isToken :: bool
  features :: array_ref
  decimalPlaces :: int
  asset :: UnderlyingAsset
  network :: jsobject

record CoinObject =
  fullName :: string
  name :: string
  prefix :: "string option"
  suffix :: "string option"
  kind :: CoinKind
  family :: jsval
  isToken :: bool
  features :: array_ref
  network :: jsobject
  decimalPlaces :: int
  asset :: UnderlyingAsset

text \<open>What the fields of an options object and of a coin object read as, in a given store.\<close>

definition read_options :: "Store \<Rightarrow> OptionsObject \<Rightarrow> BaseCoinConstructorOptions" where
  "read_options s opts =
     \<lparr> BaseCoinConstructorOptions.fullName = OptionsObject.fullName opts,
       BaseCoinConstructorOptions.name = OptionsObject.name opts,
       BaseCoinConstructorOptions.prefix = OptionsObject.prefix opts,
       BaseCoinConstructorOptions.suffix = OptionsObject.suffix opts,
       BaseCoinConstructorOptions.kind = OptionsObject.kind opts,
       BaseCoinConstructorOptions.isToken = OptionsObject.isToken opts,
       BaseCoinConstructorOptions.features = s (OptionsObject.features opts),
       BaseCoinConstructorOptions.decimalPlaces = OptionsObject.decimalPlaces opts,
       BaseCoinConstructorOptions.asset = OptionsObject.asset opts,
       BaseCoinConstructorOptions.network = OptionsObject.network opts \<rparr>"

definition read_coin :: "Store \<Rightarrow> CoinObject \<Rightarrow> BaseCoin" where
  "read_coin s coin =
     \<lparr> BaseCoin.fullName = CoinObject.fullName coin,
       BaseCoin.name = CoinObject.name coin,
       BaseCoin.prefix = CoinObject.prefix coin,
       BaseCoin.suffix = CoinObject.suffix coin,
       BaseCoin.kind = CoinObject.kind coin,
       BaseCoin.family = CoinObject.family coin,
       BaseCoin.isToken = CoinObject.isToken coin,
       BaseCoin.features = s (CoinObject.features coin),
       BaseCoin.network = CoinObject.network coin,
       BaseCoin.decimalPlaces = CoinObject.decimalPlaces coin,
       BaseCoin.asset = CoinObject.asset coin \<rparr>"

text \<open>\<open>Array_push s r x\<close> is the store after \<^verbatim>\<open>a.push(x)\<close> on the array \<open>a\<close> that \<open>r\<close> refers to.\<close>

definition Array_push :: "Store \<Rightarrow> array_ref \<Rightarrow> CoinFeature \<Rightarrow> Store" where
  "Array_push s r x = s(r := s r @ [x])"

text \<open>
  The \<^verbatim>\<open>new\<close> expression on a subclass of \<^verbatim>\<open>BaseCoin\<close>, with the objects: the
  constructor validates what the options hold in the store, and then assigns each field of
  the options to the field of the coin. It freezes nothing.
\<close>

definition new_BaseCoin ::
  "Store \<Rightarrow> CoinFeature JSSet \<Rightarrow> CoinFeature JSSet \<Rightarrow> OptionsObject \<Rightarrow> CoinError + CoinObject" where
  "new_BaseCoin s required disallowed opts =
     (case fst (validateOptions \<lparr> requiredFeatures = required, disallowedFeatures = disallowed,
                                  options = read_options s opts \<rparr>) of
        Inl e \<Rightarrow> Inl e
      | Inr u \<Rightarrow>
          Inr \<lparr> CoinObject.fullName = OptionsObject.fullName opts,
                CoinObject.name = OptionsObject.name opts,
                CoinObject.prefix = OptionsObject.prefix opts,
                CoinObject.suffix = OptionsObject.suffix opts,
                CoinObject.kind = OptionsObject.kind opts,
                CoinObject.family = get (OptionsObject.network opts) ''family'',
                CoinObject.isToken = OptionsObject.isToken opts,
                CoinObject.features = OptionsObject.features opts,
                CoinObject.network = OptionsObject.network opts,
                CoinObject.decimalPlaces = OptionsObject.decimalPlaces opts,
                CoinObject.asset = OptionsObject.asset opts \<rparr>)"

subsection \<open>Removing duplicates from a feature list\<close>

text \<open>
  \<open>dedupe xs\<close> keeps the first occurrence of every element of \<open>xs\<close>, in the order of
  \<open>xs\<close>; it is what \<^verbatim>\<open>Array.from(new Set(xs))\<close> computes.
\<close>

fun dedupe :: "'a list \<Rightarrow> 'a list" where
  "dedupe [] = []"
| "dedupe (x # xs) = x # dedupe (filter (\<lambda>y. y \<noteq> x) xs)"

subsection \<open>A coin class and its construction attempts\<close>

text \<open>
  The coin class of the specification's scenario C requires \<open>UNSPENT_MODEL\<close> and
  disallows \<open>ACCOUNT_MODEL\<close>; \<open>bitcoin_options fs\<close> are options for a coin on the
  Bitcoin main network with the features \<open>fs\<close>, and \<open>scenario fs\<close> is the heap at the
  start of the construction with these options.
\<close>

definition bitcoin_options :: "CoinFeature list \<Rightarrow> BaseCoinConstructorOptions" where
  "bitcoin_options fs =
     \<lparr> BaseCoinConstructorOptions.fullName = ''Bitcoin'',
       BaseCoinConstructorOptions.name = ''btc'',
       BaseCoinConstructorOptions.prefix = None,
       BaseCoinConstructorOptions.suffix = None,
       BaseCoinConstructorOptions.kind = CRYPTO,
       BaseCoinConstructorOptions.isToken = False,
       BaseCoinConstructorOptions.features = fs,
       BaseCoinConstructorOptions.decimalPlaces = 8,
       BaseCoinConstructorOptions.asset = ''btc'',
       BaseCoinConstructorOptions.network = Networks_main_bitcoin \<rparr>"

definition scenario :: "CoinFeature list \<Rightarrow> Heap" where
  "scenario fs =
     \<lparr> requiredFeatures = Dlist [UNSPENT_MODEL],
       disallowedFeatures = Dlist [ACCOUNT_MODEL],
       options = bitcoin_options fs \<rparr>"

text \<open>
  A second class requires two features and disallows two; a third has a contract that
  contradicts itself, with \<open>ACCOUNT_MODEL\<close> both required and disallowed.
\<close>

definition scenario_two :: "CoinFeature list \<Rightarrow> Heap" where
  "scenario_two fs =
     \<lparr> requiredFeatures = Dlist [UNSPENT_MODEL, CHILD_PAYS_FOR_PARENT],
       disallowedFeatures = Dlist [ACCOUNT_MODEL, SUPPORTS_TOKENS],
       options = bitcoin_options fs \<rparr>"

definition scenario_conflict :: "CoinFeature list \<Rightarrow> Heap" where
  "scenario_conflict fs =
     \<lparr> requiredFeatures = Dlist [UNSPENT_MODEL, ACCOUNT_MODEL],
       disallowedFeatures = Dlist [ACCOUNT_MODEL, SUPPORTS_TOKENS],
       options = bitcoin_options fs \<rparr>"

text \<open>
  A caller of the class of scenario C: its options object has its feature array at the
  reference \<open>r\<close>, and in \<open>callers_store\<close> the array at reference 0 holds the one
  required feature. \<open>bitcoin_coin_object r\<close> is the coin made from these options.
\<close>

definition bitcoin_options_object :: "array_ref \<Rightarrow> OptionsObject" where
  "bitcoin_options_object r =
     \<lparr> OptionsObject.fullName = ''Bitcoin'',
       OptionsObject.name = ''btc'',
       OptionsObject.prefix = None,
       OptionsObject.suffix = None,
       OptionsObject.kind = CRYPTO,
       OptionsObject.isToken = False,
       OptionsObject.features = r,
       OptionsObject.decimalPlaces = 8,
       OptionsObject.asset = ''btc'',
       OptionsObject.network = Networks_main_bitcoin \<rparr>"

definition callers_store :: Store where
  "callers_store = (\<lambda>r. [])(0 := [UNSPENT_MODEL])"

definition bitcoin_coin_object :: "array_ref \<Rightarrow> CoinObject" where
  "bitcoin_coin_object r =
     \<lparr> CoinObject.fullName = ''Bitcoin'',
       CoinObject.name = ''btc'',
       CoinObject.prefix = None,
       CoinObject.suffix = None,
       CoinObject.kind = CRYPTO,
       CoinObject.family = JSString ''btc'',
       CoinObject.isToken = False,
       CoinObject.features = r,
       CoinObject.network = Networks_main_bitcoin,
       CoinObject.decimalPlaces = 8,
       CoinObject.asset = ''btc'' \<rparr>"

section \<open>Properties of the feature sets and of the loop\<close>

lemmas scenario_defs =
  scenario_def scenario_two_def scenario_conflict_def bitcoin_options_def
  Set_has_def Set_delete_def Set_size_def Array_from_def Dlist.member_def Dlist.length_def

lemma remove1_dlist:
  "remove1 f (list_of_dlist s) = filter (\<lambda>y. y \<noteq> f) (list_of_dlist s)"
proof -
  have "remove1 f (list_of_dlist s) = removeAll f (list_of_dlist s)"
    by (simp add: distinct_remove1_removeAll)
  also have "\<dots> = filter (\<lambda>y. y \<noteq> f) (list_of_dlist s)"
    by (induction "list_of_dlist s") (auto simp: removeAll_filter_not_eq intro: filter_cong)
  finally show ?thesis .
qed

lemma Array_from_delete:
  "Array_from (Set_delete s f) = filter (\<lambda>y. y \<noteq> f) (Array_from s)"
  by (simp add: Array_from_def Set_delete_def remove1_dlist)

lemma Set_has_iff: "Set_has s x \<longleftrightarrow> x \<in> set (Array_from s)"
  by (simp add: Set_has_def Array_from_def Dlist.member_def)

lemma Set_size_eq: "Set_size s = length (Array_from s)"
  by (simp add: Set_size_def Array_from_def Dlist.length_def)

lemma Array_from_inject: "Array_from s = Array_from t \<longleftrightarrow> s = t"
  by (simp add: Array_from_def dlist_eq_iff)

text \<open>The loop writes neither to the disallowed set nor to the options.\<close>

lemma loop_disallowed:
  "disallowedFeatures (snd (validateOptions_loop h fs)) = disallowedFeatures h"
  by (induction fs arbitrary: h) simp_all

lemma loop_options: "options (snd (validateOptions_loop h fs)) = options h"
  by (induction fs arbitrary: h) simp_all

lemma loop_more: "Heap.more (snd (validateOptions_loop h fs)) = Heap.more h"
  by (induction fs arbitrary: h) simp_all

text \<open>The loop throws at the first disallowed feature of the list, if there is one.\<close>

lemma loop_result:
  "fst (validateOptions_loop h fs) =
     (case find (Set_has (disallowedFeatures h)) fs of
        Some f \<Rightarrow> Inl (DisallowedCoinFeatureError (BaseCoinConstructorOptions.name (options h)) f)
      | None \<Rightarrow> Inr ())"
  by (induction fs arbitrary: h) (simp_all split: option.split)

text \<open>
  The loop deletes from the required set every feature that it visits: the features in
  front of the first disallowed one.
\<close>

lemma loop_required:
  "Array_from (requiredFeatures (snd (validateOptions_loop h fs))) =
     filter (\<lambda>f. f \<notin> set (takeWhile (\<lambda>f. \<not> Set_has (disallowedFeatures h) f) fs))
       (Array_from (requiredFeatures h))"
proof (induction fs arbitrary: h)
  case Nil
  show ?case by simp
next
  case (Cons f fs)
  show ?case
  proof (cases "Set_has (disallowedFeatures h) f")
    case True
    then show ?thesis by simp
  next
    case False
    show ?thesis
    proof (cases "Set_has (requiredFeatures h) f")
      case True
      with False show ?thesis
        by (simp add: Cons.IH Array_from_delete conj_commute)
    next
      case no: False
      then have "filter (\<lambda>y. y \<noteq> f \<and> P y) (Array_from (requiredFeatures h)) =
          filter P (Array_from (requiredFeatures h))" for P
        by (auto simp: Set_has_iff intro: filter_cong)
      with False no show ?thesis
        by (simp add: Cons.IH)
    qed
  qed
qed

lemma takeWhile_no_disallowed:
  "find P fs = None \<Longrightarrow> takeWhile (\<lambda>f. \<not> P f) fs = fs"
  by (simp add: find_None_iff)

text \<open>The outcome of \<^verbatim>\<open>validateOptions\<close> as a function of what it was given.\<close>

lemma validateOptions_result:
  "fst (validateOptions h) =
     (let req = Array_from (requiredFeatures h);
          provided = BaseCoinConstructorOptions.features (options h);
          nm = BaseCoinConstructorOptions.name (options h)
      in if filter (Set_has (disallowedFeatures h)) req \<noteq> []
         then Inl (ConflictingCoinFeaturesError nm (filter (Set_has (disallowedFeatures h)) req))
         else (case find (Set_has (disallowedFeatures h)) provided of
                 Some f \<Rightarrow> Inl (DisallowedCoinFeatureError nm f)
               | None \<Rightarrow>
                   if filter (\<lambda>f. f \<notin> set provided) req \<noteq> []
                   then Inl (MissingRequiredCoinFeatureError nm
                               (filter (\<lambda>f. f \<notin> set provided) req))
                   else Inr ()))"
proof -
  let ?fs = "BaseCoinConstructorOptions.features (options h)"
  obtain r h' where loop: "validateOptions_loop h ?fs = (r, h')"
    by (cases "validateOptions_loop h ?fs")
  have r: "r = (case find (Set_has (disallowedFeatures h)) ?fs of
        Some f \<Rightarrow> Inl (DisallowedCoinFeatureError (BaseCoinConstructorOptions.name (options h)) f)
      | None \<Rightarrow> Inr ())"
    using loop_result [of h ?fs] loop by simp
  have o: "options h' = options h"
    using loop_options [of h ?fs] loop by simp
  have q: "Array_from (requiredFeatures h') =
      filter (\<lambda>f. f \<notin> set (takeWhile (\<lambda>f. \<not> Set_has (disallowedFeatures h) f) ?fs))
        (Array_from (requiredFeatures h))"
    using loop_required [of h ?fs] loop by simp
  show ?thesis
    by (simp add: validateOptions_def loop Let_def r o q Set_size_eq takeWhile_no_disallowed
        split: option.split)
qed

text \<open>The heap that \<^verbatim>\<open>validateOptions\<close> leaves.\<close>

lemma validateOptions_heap:
  "snd (validateOptions h) =
     (if filter (Set_has (disallowedFeatures h)) (Array_from (requiredFeatures h)) \<noteq> [] then h
      else snd (validateOptions_loop h (BaseCoinConstructorOptions.features (options h))))"
  by (simp add: validateOptions_def Let_def split: prod.split sum.split)

lemma validateOptions_options: "options (snd (validateOptions h)) = options h"
  by (simp add: validateOptions_heap loop_options)

text \<open>The constructor returns the error of the validation, or else the coin.\<close>

lemma constructor_result:
  "fst (BaseCoin_constructor h) =
     (case fst (validateOptions h) of
        Inl e \<Rightarrow> Inl e
      | Inr u \<Rightarrow>
          Inr \<lparr> BaseCoin.fullName = BaseCoinConstructorOptions.fullName (options h),
                BaseCoin.name = BaseCoinConstructorOptions.name (options h),
                BaseCoin.prefix = BaseCoinConstructorOptions.prefix (options h),
                BaseCoin.suffix = BaseCoinConstructorOptions.suffix (options h),
                BaseCoin.kind = BaseCoinConstructorOptions.kind (options h),
                BaseCoin.family = get (BaseCoinConstructorOptions.network (options h)) ''family'',
                BaseCoin.isToken = BaseCoinConstructorOptions.isToken (options h),
                BaseCoin.features = BaseCoinConstructorOptions.features (options h),
                BaseCoin.network = BaseCoinConstructorOptions.network (options h),
                BaseCoin.decimalPlaces = BaseCoinConstructorOptions.decimalPlaces (options h),
                BaseCoin.asset = BaseCoinConstructorOptions.asset (options h) \<rparr>)"
proof -
  obtain r h' where v: "validateOptions h = (r, h')"
    by (cases "validateOptions h")
  have "options h' = options h"
    using validateOptions_options [of h] v by simp
  then show ?thesis
    by (simp add: BaseCoin_constructor_def v split: sum.split)
qed

lemma constructor_heap: "snd (BaseCoin_constructor h) = snd (validateOptions h)"
  by (simp add: BaseCoin_constructor_def split: prod.split sum.split)

text \<open>
  The construction with the objects, read in the store of the call, is the construction
  on the contents of the options.
\<close>

lemma new_BaseCoin_read:
  "map_sum id (read_coin s) (new_BaseCoin s required disallowed opts) =
     fst (BaseCoin_constructor \<lparr> requiredFeatures = required, disallowedFeatures = disallowed,
                                 options = read_options s opts \<rparr>)"
  by (simp add: new_BaseCoin_def constructor_result read_coin_def read_options_def
      split: sum.split)

text \<open>What \<^verbatim>\<open>validateOptions\<close> leaves in each part of the heap.\<close>

lemma validateOptions_disallowed:
  "disallowedFeatures (snd (validateOptions h)) = disallowedFeatures h"
  by (simp add: validateOptions_heap loop_disallowed)

lemma validateOptions_more: "Heap.more (snd (validateOptions h)) = Heap.more h"
  by (simp add: validateOptions_heap loop_more)

lemma validateOptions_required:
  "Array_from (requiredFeatures (snd (validateOptions h))) =
     (if filter (Set_has (disallowedFeatures h)) (Array_from (requiredFeatures h)) \<noteq> []
      then Array_from (requiredFeatures h)
      else filter (\<lambda>f. f \<notin> set (takeWhile (\<lambda>f. \<not> Set_has (disallowedFeatures h) f)
                                    (BaseCoinConstructorOptions.features (options h))))
             (Array_from (requiredFeatures h)))"
  by (simp add: validateOptions_heap loop_required)

text \<open>Removing duplicates keeps the elements, and the first element with a given property.\<close>

lemma set_dedupe: "set (dedupe xs) = set xs"
  by (induction xs rule: dedupe.induct) auto

lemma find_dedupe: "find P (dedupe xs) = find P xs"
proof (induction xs rule: dedupe.induct)
  case 1
  show ?case by simp
next
  case (2 x xs)
  have "find P (filter (\<lambda>y. y \<noteq> x) xs) = find P xs" if "\<not> P x"
    using that by (induction xs) auto
  with 2 show ?case by simp
qed

lemma distinct_dedupe: "distinct (dedupe xs)"
  by (induction xs rule: dedupe.induct) (auto simp: set_dedupe)

lemma set_takeWhile_dedupe:
  "set (takeWhile P (dedupe xs)) = set (takeWhile P xs)"
proof (induction xs rule: dedupe.induct)
  case 1
  show ?case by simp
next
  case (2 x xs)
  have "insert x (set (takeWhile P (filter (\<lambda>y. y \<noteq> x) xs))) = insert x (set (takeWhile P xs))"
    if "P x"
    using that by (induction xs) auto
  with 2 show ?case by (cases "P x") simp_all
qed

section \<open>Validation and construction: the claims\<close>

text \<open>
  In the theorems below, \<open>h\<close> is the heap at the start of a construction attempt:
  \<open>requiredFeatures h\<close> and \<open>disallowedFeatures h\<close> are the sets that the coin class
  returns, \<open>options h\<close> are the options supplied by the caller. The contract of the coin
  class is well formed when the two sets have no feature in common.
\<close>

text \<open>
  Claim C1. When the contract is well formed and the supplied features contain a feature
  of the disallowed set, the construction fails with \<open>DisallowedCoinFeatureError\<close>, which
  carries the name of the coin and a supplied feature that is disallowed. Nothing is
  assumed of the other features supplied, nor of the required features: the error is
  the same when required features are missing, since the check of the missing features
  comes after the loop.
\<close>

theorem disallowed_feature_rejected:
  assumes wf: "set (Array_from (requiredFeatures h)) \<inter> set (Array_from (disallowedFeatures h)) = {}"
    and dis: "\<exists>f \<in> set (BaseCoinConstructorOptions.features (options h)). Set_has (disallowedFeatures h) f"
  shows "\<exists>f. f \<in> set (BaseCoinConstructorOptions.features (options h))
           \<and> Set_has (disallowedFeatures h) f
           \<and> fst (BaseCoin_constructor h) =
               Inl (DisallowedCoinFeatureError (BaseCoinConstructorOptions.name (options h)) f)"
proof -
  from wf have nc: "filter (Set_has (disallowedFeatures h)) (Array_from (requiredFeatures h)) = []"
    by (auto simp: filter_empty_conv Set_has_iff)
  from dis obtain f where f: "find (Set_has (disallowedFeatures h)) (BaseCoinConstructorOptions.features (options h)) = Some f"
    by (cases "find (Set_has (disallowedFeatures h)) (BaseCoinConstructorOptions.features (options h))")
       (auto simp: find_None_iff)
  then have "f \<in> set (BaseCoinConstructorOptions.features (options h))" "Set_has (disallowedFeatures h) f"
    by (auto simp: find_Some_iff)
  moreover have "fst (BaseCoin_constructor h) =
               Inl (DisallowedCoinFeatureError (BaseCoinConstructorOptions.name (options h)) f)"
    by (simp add: constructor_result validateOptions_result nc f)
  ultimately show ?thesis by blast
qed

theorem disallowed_feature_rejected_witness:
  "set (Array_from (requiredFeatures (scenario_two [CHILD_PAYS_FOR_PARENT, ACCOUNT_MODEL])))
     \<inter> set (Array_from (disallowedFeatures (scenario_two [CHILD_PAYS_FOR_PARENT, ACCOUNT_MODEL]))) = {}
   \<and> (\<exists>f \<in> set (BaseCoinConstructorOptions.features (options (scenario_two [CHILD_PAYS_FOR_PARENT, ACCOUNT_MODEL]))).
         Set_has (disallowedFeatures (scenario_two [CHILD_PAYS_FOR_PARENT, ACCOUNT_MODEL])) f)
   \<and> UNSPENT_MODEL \<notin> set (BaseCoinConstructorOptions.features (options (scenario_two [CHILD_PAYS_FOR_PARENT, ACCOUNT_MODEL])))
   \<and> fst (BaseCoin_constructor (scenario_two [CHILD_PAYS_FOR_PARENT, ACCOUNT_MODEL])) =
       Inl (DisallowedCoinFeatureError ''btc'' ACCOUNT_MODEL)"
  using disallowed_feature_rejected [of "scenario_two [CHILD_PAYS_FOR_PARENT, ACCOUNT_MODEL]"]
  by (auto simp add: scenario_defs)

text \<open>
  Claim C2. When the contract is well formed, no supplied feature is disallowed, and a
  required feature is absent from the supplied list, the construction fails with
  \<open>MissingRequiredCoinFeatureError\<close>. The features it reports are the required features
  that were not supplied, all of them and each once, in the order of the required set.
\<close>

theorem missing_required_features_reported:
  assumes wf: "set (Array_from (requiredFeatures h)) \<inter> set (Array_from (disallowedFeatures h)) = {}"
    and nodis: "\<forall>f \<in> set (BaseCoinConstructorOptions.features (options h)). \<not> Set_has (disallowedFeatures h) f"
    and absent: "\<exists>f. Set_has (requiredFeatures h) f \<and> f \<notin> set (BaseCoinConstructorOptions.features (options h))"
  shows "\<exists>missing.
           fst (BaseCoin_constructor h) =
             Inl (MissingRequiredCoinFeatureError (BaseCoinConstructorOptions.name (options h)) missing)
         \<and> missing = filter (\<lambda>f. f \<notin> set (BaseCoinConstructorOptions.features (options h)))
                       (Array_from (requiredFeatures h))
         \<and> set missing = set (Array_from (requiredFeatures h))
                          - set (BaseCoinConstructorOptions.features (options h))
         \<and> distinct missing"
proof -
  let ?fs = "BaseCoinConstructorOptions.features (options h)"
  from wf have nc: "filter (Set_has (disallowedFeatures h)) (Array_from (requiredFeatures h)) = []"
    by (auto simp: filter_empty_conv Set_has_iff)
  from nodis have nd: "find (Set_has (disallowedFeatures h)) ?fs = None"
    by (simp add: find_None_iff)
  from absent have ne: "filter (\<lambda>f. f \<notin> set ?fs) (Array_from (requiredFeatures h)) \<noteq> []"
    by (auto simp: filter_empty_conv Set_has_iff)
  have "fst (BaseCoin_constructor h) =
      Inl (MissingRequiredCoinFeatureError (BaseCoinConstructorOptions.name (options h))
            (filter (\<lambda>f. f \<notin> set ?fs) (Array_from (requiredFeatures h))))"
    by (simp add: constructor_result validateOptions_result nc nd ne)
  moreover have "set (filter (\<lambda>f. f \<notin> set ?fs) (Array_from (requiredFeatures h))) =
      set (Array_from (requiredFeatures h)) - set ?fs"
    by auto
  moreover have "distinct (filter (\<lambda>f. f \<notin> set ?fs) (Array_from (requiredFeatures h)))"
    by (simp add: Array_from_def)
  ultimately show ?thesis by blast
qed

theorem missing_required_features_reported_witness:
  "set (Array_from (requiredFeatures (scenario_two [NATIVE_SEGWIT])))
     \<inter> set (Array_from (disallowedFeatures (scenario_two [NATIVE_SEGWIT]))) = {}
   \<and> BaseCoinConstructorOptions.features (options (scenario_two [NATIVE_SEGWIT])) = [NATIVE_SEGWIT]
   \<and> \<not> Set_has (disallowedFeatures (scenario_two [NATIVE_SEGWIT])) NATIVE_SEGWIT
   \<and> (\<exists>f. Set_has (requiredFeatures (scenario_two [NATIVE_SEGWIT])) f
         \<and> f \<notin> set (BaseCoinConstructorOptions.features (options (scenario_two [NATIVE_SEGWIT]))))
   \<and> fst (BaseCoin_constructor (scenario_two [NATIVE_SEGWIT])) =
       Inl (MissingRequiredCoinFeatureError ''btc'' [UNSPENT_MODEL, CHILD_PAYS_FOR_PARENT])"
  using missing_required_features_reported [of "scenario_two [NATIVE_SEGWIT]"]
  by (auto simp add: scenario_defs)

text \<open>
  Claim C3. When the required and the disallowed set overlap, every construction attempt
  fails with \<open>ConflictingCoinFeaturesError\<close>, which carries the name of the coin and the
  features common to both sets. The options are arbitrary, so the error does not depend
  on the features supplied; the heap is left as it was, the loop over the supplied
  features not having started.
\<close>

theorem conflicting_contract_rejected:
  assumes overlap: "set (Array_from (requiredFeatures h)) \<inter> set (Array_from (disallowedFeatures h)) \<noteq> {}"
  shows "\<exists>conflict.
           BaseCoin_constructor h =
             (Inl (ConflictingCoinFeaturesError (BaseCoinConstructorOptions.name (options h)) conflict), h)
         \<and> conflict = filter (Set_has (disallowedFeatures h)) (Array_from (requiredFeatures h))
         \<and> set conflict = set (Array_from (requiredFeatures h)) \<inter> set (Array_from (disallowedFeatures h))
         \<and> distinct conflict"
proof -
  let ?c = "filter (Set_has (disallowedFeatures h)) (Array_from (requiredFeatures h))"
  have s: "set ?c = set (Array_from (requiredFeatures h)) \<inter> set (Array_from (disallowedFeatures h))"
    by (auto simp: Set_has_iff)
  with overlap have ne: "?c \<noteq> []"
    by (metis set_empty)
  have "fst (BaseCoin_constructor h) = Inl (ConflictingCoinFeaturesError (BaseCoinConstructorOptions.name (options h)) ?c)"
    using ne by (simp add: constructor_result validateOptions_result)
  moreover have "snd (BaseCoin_constructor h) = h"
    using ne by (simp add: constructor_heap validateOptions_heap)
  ultimately have "BaseCoin_constructor h =
      (Inl (ConflictingCoinFeaturesError (BaseCoinConstructorOptions.name (options h)) ?c), h)"
    by (simp add: prod_eq_iff)
  moreover have "distinct ?c"
    by (simp add: Array_from_def)
  ultimately show ?thesis using s by blast
qed

theorem conflicting_contract_rejected_witness:
  "set (Array_from (requiredFeatures (scenario_conflict [UNSPENT_MODEL])))
     \<inter> set (Array_from (disallowedFeatures (scenario_conflict [UNSPENT_MODEL]))) \<noteq> {}
   \<and> BaseCoin_constructor (scenario_conflict [UNSPENT_MODEL]) =
       (Inl (ConflictingCoinFeaturesError ''btc'' [ACCOUNT_MODEL]), scenario_conflict [UNSPENT_MODEL])"
  using conflicting_contract_rejected [of "scenario_conflict [UNSPENT_MODEL]"]
  by (auto simp add: scenario_defs)

text \<open>
  Claim C4, as stated: constructing with the required features succeeds and produces an
  immutable coin. The construction succeeds, but the coin is not immutable: its field
  \<open>features\<close> is the array of the caller. In scenario C the caller supplies the array
  \<open>[UNSPENT_MODEL]\<close>, the construction yields the coin, and the features of the coin read
  \<open>[UNSPENT_MODEL]\<close>; after the caller's \<^verbatim>\<open>options.features.push(ACCOUNT_MODEL)\<close> the
  features of the same coin read \<open>[UNSPENT_MODEL, ACCOUNT_MODEL]\<close>, with a feature that
  the class disallows.
\<close>

theorem coin_follows_callers_array:
  "callers_store (OptionsObject.features (bitcoin_options_object 0))
     = Array_from (Dlist [UNSPENT_MODEL])
   \<and> new_BaseCoin callers_store (Dlist [UNSPENT_MODEL]) (Dlist [ACCOUNT_MODEL])
         (bitcoin_options_object 0) = Inr (bitcoin_coin_object 0)
   \<and> BaseCoin.features (read_coin callers_store (bitcoin_coin_object 0)) = [UNSPENT_MODEL]
   \<and> BaseCoin.features
         (read_coin (Array_push callers_store (OptionsObject.features (bitcoin_options_object 0))
                       ACCOUNT_MODEL)
            (bitcoin_coin_object 0)) = [UNSPENT_MODEL, ACCOUNT_MODEL]"
  by (simp add: new_BaseCoin_def validateOptions_def read_options_def read_coin_def
      Array_push_def callers_store_def bitcoin_options_object_def bitcoin_coin_object_def
      Set_has_def Set_delete_def Set_size_def Array_from_def Dlist.member_def Dlist.length_def
      Networks_main_bitcoin_def Object_freeze_def new_def Bitcoin_def Mainnet_def)

text \<open>
  Claim C4, amended. When the contract is well formed and the array supplied holds the
  required features, the construction succeeds: it raises no error and yields a coin
  object. Read in the store of the call, that coin is the coin of the construction on the
  contents of the options, and its features are the features supplied. The field
  \<open>features\<close> of the coin is the reference of the caller's array, so that in every later
  store the features of the coin read as the contents of that array.
\<close>

theorem required_features_accepted:
  assumes wf: "set (Array_from required) \<inter> set (Array_from disallowed) = {}"
    and exact: "set (s (OptionsObject.features opts)) = set (Array_from required)"
  shows "\<exists>coin. new_BaseCoin s required disallowed opts = Inr coin
           \<and> fst (BaseCoin_constructor
                    \<lparr> requiredFeatures = required, disallowedFeatures = disallowed,
                      options = read_options s opts \<rparr>) = Inr (read_coin s coin)
           \<and> BaseCoin.features (read_coin s coin) = s (OptionsObject.features opts)
           \<and> CoinObject.features coin = OptionsObject.features opts
           \<and> (\<forall>s'. BaseCoin.features (read_coin s' coin) = s' (OptionsObject.features opts))"
proof -
  let ?h = "\<lparr> requiredFeatures = required, disallowedFeatures = disallowed,
              options = read_options s opts \<rparr>"
  let ?fs = "s (OptionsObject.features opts)"
  have fs: "BaseCoinConstructorOptions.features (read_options s opts) = ?fs"
    by (simp add: read_options_def)
  from wf have nc: "filter (Set_has disallowed) (Array_from required) = []"
    by (auto simp: filter_empty_conv Set_has_iff)
  from wf exact have nd: "find (Set_has disallowed) ?fs = None"
    by (auto simp: find_None_iff Set_has_iff)
  from exact have nm: "filter (\<lambda>f. f \<notin> set ?fs) (Array_from required) = []"
    by (simp add: filter_empty_conv)
  have ok: "fst (validateOptions ?h) = Inr ()"
    by (simp add: validateOptions_result Let_def fs nc nd nm)
  then obtain coin where coin: "new_BaseCoin s required disallowed opts = Inr coin"
    by (simp add: new_BaseCoin_def)
  have ref: "CoinObject.features coin = OptionsObject.features opts"
    using coin ok by (auto simp add: new_BaseCoin_def)
  have "fst (BaseCoin_constructor ?h) = Inr (read_coin s coin)"
    using new_BaseCoin_read [of s required disallowed opts] coin by simp
  moreover have "\<forall>s'. BaseCoin.features (read_coin s' coin) = s' (OptionsObject.features opts)"
    by (simp add: read_coin_def ref)
  ultimately show ?thesis
    using coin ref by auto
qed

theorem required_features_accepted_witness:
  "set (Array_from (Dlist [UNSPENT_MODEL])) \<inter> set (Array_from (Dlist [ACCOUNT_MODEL])) = {}
   \<and> set (callers_store (OptionsObject.features (bitcoin_options_object 0)))
       = set (Array_from (Dlist [UNSPENT_MODEL]))
   \<and> (\<exists>coin. new_BaseCoin callers_store (Dlist [UNSPENT_MODEL]) (Dlist [ACCOUNT_MODEL])
                (bitcoin_options_object 0) = Inr coin
         \<and> BaseCoin.features (read_coin callers_store coin) = [UNSPENT_MODEL]
         \<and> CoinObject.features coin = 0)"
  using required_features_accepted
    [of "Dlist [UNSPENT_MODEL]" "Dlist [ACCOUNT_MODEL]" callers_store "bitcoin_options_object 0"]
  by (auto simp add: Array_from_def callers_store_def bitcoin_options_object_def)

text \<open>
  Claim C5. Every field of a coin that was constructed equals the field of the same name
  of the options; \<open>family\<close> is not among the options and is read from the network of the
  options, so that the family of a coin is the family of its network.
\<close>

theorem constructed_coin_fields:
  assumes ok: "fst (BaseCoin_constructor h) = Inr coin"
  shows "BaseCoin.fullName coin = BaseCoinConstructorOptions.fullName (options h)
       \<and> BaseCoin.name coin = BaseCoinConstructorOptions.name (options h)
       \<and> BaseCoin.prefix coin = BaseCoinConstructorOptions.prefix (options h)
       \<and> BaseCoin.suffix coin = BaseCoinConstructorOptions.suffix (options h)
       \<and> BaseCoin.kind coin = BaseCoinConstructorOptions.kind (options h)
       \<and> BaseCoin.isToken coin = BaseCoinConstructorOptions.isToken (options h)
       \<and> BaseCoin.features coin = BaseCoinConstructorOptions.features (options h)
       \<and> BaseCoin.decimalPlaces coin = BaseCoinConstructorOptions.decimalPlaces (options h)
       \<and> BaseCoin.asset coin = BaseCoinConstructorOptions.asset (options h)
       \<and> BaseCoin.network coin = BaseCoinConstructorOptions.network (options h)
       \<and> BaseCoin.family coin = get (BaseCoinConstructorOptions.network (options h)) ''family''
       \<and> BaseCoin.family coin = get (BaseCoin.network coin) ''family''"
  using ok by (auto simp add: constructor_result split: sum.splits)

theorem constructed_coin_fields_witness:
  "fst (BaseCoin_constructor (scenario [UNSPENT_MODEL, CHILD_PAYS_FOR_PARENT])) =
     Inr \<lparr> BaseCoin.fullName = ''Bitcoin'', name = ''btc'', prefix = None, suffix = None,
           kind = CRYPTO, family = JSString ''btc'', isToken = False,
           features = [UNSPENT_MODEL, CHILD_PAYS_FOR_PARENT], network = Networks_main_bitcoin,
           decimalPlaces = 8, asset = ''btc'' \<rparr>
   \<and> BaseCoin.family \<lparr> BaseCoin.fullName = ''Bitcoin'', name = ''btc'', prefix = None, suffix = None,
           kind = CRYPTO, family = JSString ''btc'', isToken = False,
           features = [UNSPENT_MODEL, CHILD_PAYS_FOR_PARENT], network = Networks_main_bitcoin,
           decimalPlaces = 8, asset = ''btc'' \<rparr> = get Networks_main_bitcoin ''family''"
proof -
  have ok: "fst (BaseCoin_constructor (scenario [UNSPENT_MODEL, CHILD_PAYS_FOR_PARENT])) =
     Inr \<lparr> BaseCoin.fullName = ''Bitcoin'', name = ''btc'', prefix = None, suffix = None,
           kind = CRYPTO, family = JSString ''btc'', isToken = False,
           features = [UNSPENT_MODEL, CHILD_PAYS_FOR_PARENT], network = Networks_main_bitcoin,
           decimalPlaces = 8, asset = ''btc'' \<rparr>"
    by (simp add: BaseCoin_constructor_def validateOptions_def scenario_defs
        Networks_main_bitcoin_def Object_freeze_def new_def Bitcoin_def Mainnet_def)
  show ?thesis
    using ok constructed_coin_fields [OF ok] by (simp add: scenario_defs)
qed

text \<open>
  Claim C6, as stated: validation performs no mutation, so it leaves the heap as it found
  it. It does not: in scenario C of the specification, with \<open>UNSPENT_MODEL\<close> required
  and supplied, validation succeeds and has deleted \<open>UNSPENT_MODEL\<close> from the set that
  \<^verbatim>\<open>this.requiredFeatures()\<close> returned (\<^verbatim>\<open>requiredFeatures.delete(feature)\<close>).
\<close>

theorem validation_deletes_from_required_set:
  "Array_from (requiredFeatures (scenario [UNSPENT_MODEL, CHILD_PAYS_FOR_PARENT])) = [UNSPENT_MODEL]
   \<and> fst (validateOptions (scenario [UNSPENT_MODEL, CHILD_PAYS_FOR_PARENT])) = Inr ()
   \<and> Array_from (requiredFeatures (snd (validateOptions (scenario [UNSPENT_MODEL, CHILD_PAYS_FOR_PARENT])))) = []
   \<and> snd (validateOptions (scenario [UNSPENT_MODEL, CHILD_PAYS_FOR_PARENT]))
       \<noteq> scenario [UNSPENT_MODEL, CHILD_PAYS_FOR_PARENT]"
proof -
  have a: "Array_from (requiredFeatures (scenario [UNSPENT_MODEL, CHILD_PAYS_FOR_PARENT])) = [UNSPENT_MODEL]"
    by (simp add: scenario_defs)
  have b: "fst (validateOptions (scenario [UNSPENT_MODEL, CHILD_PAYS_FOR_PARENT])) = Inr ()"
    by (simp add: validateOptions_def scenario_defs)
  have c: "Array_from (requiredFeatures (snd (validateOptions (scenario [UNSPENT_MODEL, CHILD_PAYS_FOR_PARENT])))) = []"
    by (simp add: validateOptions_def scenario_defs)
  from a c have "requiredFeatures (snd (validateOptions (scenario [UNSPENT_MODEL, CHILD_PAYS_FOR_PARENT])))
      \<noteq> requiredFeatures (scenario [UNSPENT_MODEL, CHILD_PAYS_FOR_PARENT])"
    by (metis list.distinct(1))
  then have d: "snd (validateOptions (scenario [UNSPENT_MODEL, CHILD_PAYS_FOR_PARENT]))
       \<noteq> scenario [UNSPENT_MODEL, CHILD_PAYS_FOR_PARENT]"
    by (metis)
  from a b c d show ?thesis by blast
qed

text \<open>
  Claim C6, amended. Validation writes to one object only, the set that
  \<^verbatim>\<open>this.requiredFeatures()\<close> returned: the heap it leaves is the heap it found but
  for that set. From that set it has deleted the supplied features that the loop visited:
  none when the contract contradicts itself, and else the features in front of the first
  disallowed one (all of them when none is disallowed). The disallowed set and the
  options are as they were. The constructor adds no effect of its own, and when validation
  fails it returns the error and no coin.
\<close>

theorem validation_writes_required_set_only:
  "snd (validateOptions h) = h\<lparr>requiredFeatures := requiredFeatures (snd (validateOptions h))\<rparr>
   \<and> Array_from (requiredFeatures (snd (validateOptions h))) =
       (if filter (Set_has (disallowedFeatures h)) (Array_from (requiredFeatures h)) \<noteq> []
        then Array_from (requiredFeatures h)
        else filter (\<lambda>f. f \<notin> set (takeWhile (\<lambda>f. \<not> Set_has (disallowedFeatures h) f)
                                      (BaseCoinConstructorOptions.features (options h))))
               (Array_from (requiredFeatures h)))
   \<and> snd (BaseCoin_constructor h) = snd (validateOptions h)
   \<and> (\<forall>e. fst (validateOptions h) = Inl e \<longrightarrow> fst (BaseCoin_constructor h) = Inl e)"
proof -
  have "snd (validateOptions h) = h\<lparr>requiredFeatures := requiredFeatures (snd (validateOptions h))\<rparr>"
    by (rule Heap.equality)
       (simp_all add: validateOptions_disallowed validateOptions_options validateOptions_more)
  moreover have "\<forall>e. fst (validateOptions h) = Inl e \<longrightarrow> fst (BaseCoin_constructor h) = Inl e"
    by (simp add: constructor_result)
  ultimately show ?thesis
    using validateOptions_required [of h] constructor_heap [of h] by blast
qed

theorem validation_writes_required_set_only_witness:
  "fst (validateOptions (scenario_two [CHILD_PAYS_FOR_PARENT, NATIVE_SEGWIT])) =
     Inl (MissingRequiredCoinFeatureError ''btc'' [UNSPENT_MODEL])
   \<and> fst (BaseCoin_constructor (scenario_two [CHILD_PAYS_FOR_PARENT, NATIVE_SEGWIT])) =
     Inl (MissingRequiredCoinFeatureError ''btc'' [UNSPENT_MODEL])
   \<and> snd (BaseCoin_constructor (scenario_two [CHILD_PAYS_FOR_PARENT, NATIVE_SEGWIT])) =
     (scenario_two [CHILD_PAYS_FOR_PARENT, NATIVE_SEGWIT])
       \<lparr>requiredFeatures := requiredFeatures
           (snd (validateOptions (scenario_two [CHILD_PAYS_FOR_PARENT, NATIVE_SEGWIT])))\<rparr>
   \<and> Array_from (requiredFeatures (snd (validateOptions (scenario_two [CHILD_PAYS_FOR_PARENT, NATIVE_SEGWIT]))))
       = [UNSPENT_MODEL]"
proof -
  have failed: "fst (validateOptions (scenario_two [CHILD_PAYS_FOR_PARENT, NATIVE_SEGWIT])) =
     Inl (MissingRequiredCoinFeatureError ''btc'' [UNSPENT_MODEL])"
    by (simp add: validateOptions_def scenario_defs)
  show ?thesis
    using failed validation_writes_required_set_only [of "scenario_two [CHILD_PAYS_FOR_PARENT, NATIVE_SEGWIT]"]
    by (simp add: scenario_defs)
qed

text \<open>
  Claim C9. When the contract is well formed, the feature reported by
  \<open>DisallowedCoinFeatureError\<close> is the first disallowed feature of the supplied list:
  the supplied list is \<open>before @ f # rest\<close>, no feature of \<open>before\<close> is disallowed,
  \<open>f\<close> is, and \<open>f\<close> is reported whatever \<open>rest\<close> holds. The order is that of the
  caller's list; the order of the disallowed set plays no part.
\<close>

theorem first_disallowed_feature_reported:
  assumes wf: "set (Array_from (requiredFeatures h)) \<inter> set (Array_from (disallowedFeatures h)) = {}"
    and split: "BaseCoinConstructorOptions.features (options h) = before @ f # rest"
    and before: "\<forall>g \<in> set before. \<not> Set_has (disallowedFeatures h) g"
    and f: "Set_has (disallowedFeatures h) f"
  shows "fst (BaseCoin_constructor h) =
           Inl (DisallowedCoinFeatureError (BaseCoinConstructorOptions.name (options h)) f)"
proof -
  from wf have nc: "filter (Set_has (disallowedFeatures h)) (Array_from (requiredFeatures h)) = []"
    by (auto simp: filter_empty_conv Set_has_iff)
  have "find (Set_has (disallowedFeatures h)) (before @ f # rest) = Some f"
    using before f by (induction before) simp_all
  then show ?thesis
    by (simp add: constructor_result validateOptions_result nc split)
qed

theorem first_disallowed_feature_reported_witness:
  "set (Array_from (requiredFeatures (scenario_two [NATIVE_SEGWIT, SUPPORTS_TOKENS, ACCOUNT_MODEL])))
     \<inter> set (Array_from (disallowedFeatures (scenario_two [NATIVE_SEGWIT, SUPPORTS_TOKENS, ACCOUNT_MODEL]))) = {}
   \<and> BaseCoinConstructorOptions.features (options (scenario_two [NATIVE_SEGWIT, SUPPORTS_TOKENS, ACCOUNT_MODEL]))
       = [NATIVE_SEGWIT] @ SUPPORTS_TOKENS # [ACCOUNT_MODEL]
   \<and> \<not> Set_has (disallowedFeatures (scenario_two [NATIVE_SEGWIT, SUPPORTS_TOKENS, ACCOUNT_MODEL])) NATIVE_SEGWIT
   \<and> Set_has (disallowedFeatures (scenario_two [NATIVE_SEGWIT, SUPPORTS_TOKENS, ACCOUNT_MODEL])) SUPPORTS_TOKENS
   \<and> Set_has (disallowedFeatures (scenario_two [NATIVE_SEGWIT, SUPPORTS_TOKENS, ACCOUNT_MODEL])) ACCOUNT_MODEL
   \<and> Array_from (disallowedFeatures (scenario_two [NATIVE_SEGWIT, SUPPORTS_TOKENS, ACCOUNT_MODEL]))
       = [ACCOUNT_MODEL, SUPPORTS_TOKENS]
   \<and> fst (BaseCoin_constructor (scenario_two [NATIVE_SEGWIT, SUPPORTS_TOKENS, ACCOUNT_MODEL])) =
       Inl (DisallowedCoinFeatureError ''btc'' SUPPORTS_TOKENS)"
  using first_disallowed_feature_reported
    [of "scenario_two [NATIVE_SEGWIT, SUPPORTS_TOKENS, ACCOUNT_MODEL]" "[NATIVE_SEGWIT]"
        SUPPORTS_TOKENS "[ACCOUNT_MODEL]"]
  by (simp add: scenario_defs)

text \<open>
  Claim C10. Validating a feature list and validating the same list with its duplicates
  removed have the same outcome: both succeed, or both fail with the same error and the
  same data in it. They also leave the same required set behind. Duplicates are removed as
  \<^verbatim>\<open>Array.from(new Set(features))\<close> does it, keeping the first occurrence of a feature.
\<close>

theorem duplicates_do_not_matter:
  "fst (validateOptions
          (h\<lparr>options := (options h)\<lparr>BaseCoinConstructorOptions.features :=
                dedupe (BaseCoinConstructorOptions.features (options h))\<rparr>\<rparr>))
     = fst (validateOptions h)
   \<and> requiredFeatures (snd (validateOptions
          (h\<lparr>options := (options h)\<lparr>BaseCoinConstructorOptions.features :=
                dedupe (BaseCoinConstructorOptions.features (options h))\<rparr>\<rparr>)))
     = requiredFeatures (snd (validateOptions h))
   \<and> distinct (dedupe (BaseCoinConstructorOptions.features (options h)))
   \<and> set (dedupe (BaseCoinConstructorOptions.features (options h)))
       = set (BaseCoinConstructorOptions.features (options h))"
proof -
  let ?h = "h\<lparr>options := (options h)\<lparr>BaseCoinConstructorOptions.features :=
                dedupe (BaseCoinConstructorOptions.features (options h))\<rparr>\<rparr>"
  have r: "fst (validateOptions ?h) = fst (validateOptions h)"
    by (simp add: validateOptions_result Let_def find_dedupe set_dedupe split: option.split)
  have "Array_from (requiredFeatures (snd (validateOptions ?h))) =
      Array_from (requiredFeatures (snd (validateOptions h)))"
    by (simp add: validateOptions_heap loop_required set_takeWhile_dedupe)
  then have q: "requiredFeatures (snd (validateOptions ?h)) = requiredFeatures (snd (validateOptions h))"
    by (simp add: Array_from_inject)
  show ?thesis
    using r q by (simp add: distinct_dedupe set_dedupe)
qed

theorem duplicates_do_not_matter_witness:
  "dedupe [SUPPORTS_TOKENS, NATIVE_SEGWIT, ACCOUNT_MODEL, SUPPORTS_TOKENS, NATIVE_SEGWIT]
     = [SUPPORTS_TOKENS, NATIVE_SEGWIT, ACCOUNT_MODEL]
   \<and> fst (validateOptions (scenario_two [SUPPORTS_TOKENS, NATIVE_SEGWIT, ACCOUNT_MODEL]))
     = fst (validateOptions
         (scenario_two [SUPPORTS_TOKENS, NATIVE_SEGWIT, ACCOUNT_MODEL, SUPPORTS_TOKENS, NATIVE_SEGWIT]))"
  using duplicates_do_not_matter
    [of "scenario_two [SUPPORTS_TOKENS, NATIVE_SEGWIT, ACCOUNT_MODEL, SUPPORTS_TOKENS, NATIVE_SEGWIT]"]
  by (simp add: scenario_two_def bitcoin_options_def)

section \<open>The network catalog: the claims\<close>

lemmas network_defs =
  Networks_main_bitcoin_def Networks_main_bitcoinGold_def Networks_main_litecoin_def
  Networks_main_ethereum_def Networks_main_ripple_def Networks_main_stellar_def
  Networks_test_bitcoin_def Networks_test_litecoin_def Networks_test_kovan_def
  Networks_test_ripple_def Networks_test_stellar_def
  Object_freeze_def new_def
  Mainnet_def Testnet_def Ethereum_def Kovan_def Bitcoin_def BitcoinTestnet_def BitcoinGold_def
  Litecoin_def LitecoinTestnet_def Ripple_def RippleTestnet_def Stellar_def StellarTestnet_def
  BTC_FAMILY_MAINNET_BIP32_PUBLIC_def BTC_FAMILY_MAINNET_BIP32_PRIVATE_def BTC_FAMILY_WIF_def

text \<open>The parameters of the five UTXO networks of the catalog, one network at a time.\<close>

lemma bitcoin_main_parameters:
  "get Networks_main_bitcoin ''bech32'' = JSString ''bc''
   \<and> get Networks_main_bitcoin ''bip32'' =
       JSObject [(''public'', JSNumber 0x0488b21e), (''private'', JSNumber 0x0488ade4)]
   \<and> get Networks_main_bitcoin ''pubKeyHash'' = JSNumber 0x00
   \<and> get Networks_main_bitcoin ''scriptHash'' = JSNumber 0x05
   \<and> get Networks_main_bitcoin ''wif'' = JSNumber 0x80"
  by (simp add: network_defs)

lemma bitcoin_test_parameters:
  "get Networks_test_bitcoin ''bech32'' = JSString ''tb''
   \<and> get Networks_test_bitcoin ''bip32'' =
       JSObject [(''public'', JSNumber 0x043587cf), (''private'', JSNumber 0x04358394)]
   \<and> get Networks_test_bitcoin ''pubKeyHash'' = JSNumber 0x6f
   \<and> get Networks_test_bitcoin ''scriptHash'' = JSNumber 0xc4
   \<and> get Networks_test_bitcoin ''wif'' = JSNumber 0xef"
  by (simp add: network_defs)

lemma bitcoinGold_main_parameters:
  "get Networks_main_bitcoinGold ''bech32'' = JSString ''btg''
   \<and> get Networks_main_bitcoinGold ''bip32'' =
       JSObject [(''public'', JSNumber 0x0488b21e), (''private'', JSNumber 0x0488ade4)]
   \<and> get Networks_main_bitcoinGold ''pubKeyHash'' = JSNumber 0x26
   \<and> get Networks_main_bitcoinGold ''scriptHash'' = JSNumber 0x17
   \<and> get Networks_main_bitcoinGold ''wif'' = JSNumber 0x80"
  by (simp add: network_defs)

lemma litecoin_main_parameters:
  "get Networks_main_litecoin ''bech32'' = JSString ''ltc''
   \<and> get Networks_main_litecoin ''bip32'' =
       JSObject [(''public'', JSNumber 0x0488b21e), (''private'', JSNumber 0x0488ade4)]
   \<and> get Networks_main_litecoin ''pubKeyHash'' = JSNumber 0x30
   \<and> get Networks_main_litecoin ''scriptHash'' = JSNumber 0x32
   \<and> get Networks_main_litecoin ''wif'' = JSNumber 0xb0"
  by (simp add: network_defs)

lemma litecoin_test_parameters:
  "get Networks_test_litecoin ''bech32'' = JSString ''tltc''
   \<and> get Networks_test_litecoin ''bip32'' =
       JSObject [(''public'', JSNumber 0x0488b21e), (''private'', JSNumber 0x0488ade4)]
   \<and> get Networks_test_litecoin ''pubKeyHash'' = JSNumber 0x6f
   \<and> get Networks_test_litecoin ''scriptHash'' = JSNumber 0x3a
   \<and> get Networks_test_litecoin ''wif'' = JSNumber 0xb0"
  by (simp add: network_defs)

text \<open>The family and the message prefix that the catalog holds, mainnets and testnets.\<close>

lemma mainnet_family_and_prefix:
  "get Networks_main_bitcoin ''family'' = JSString ''btc''
   \<and> get Networks_main_bitcoin ''messagePrefix'' =
       JSString (CHR 0x18 # ''Bitcoin Signed Message:'' @ [CHR 0x0A])
   \<and> get Networks_main_litecoin ''family'' = JSString ''ltc''
   \<and> get Networks_main_litecoin ''messagePrefix'' =
       JSString (CHR 0x19 # ''Litecoin Signed Message:'' @ [CHR 0x0A])
   \<and> get Networks_main_ethereum ''family'' = JSString ''eth''
   \<and> get Networks_main_ripple ''family'' = JSString ''xrp''
   \<and> get Networks_main_stellar ''family'' = JSString ''xlm''"
  by (simp add: network_defs)

lemma testnet_family_and_prefix:
  "get Networks_test_bitcoin ''family'' = JSUndefined
   \<and> get Networks_test_bitcoin ''messagePrefix'' = JSUndefined
   \<and> get Networks_test_litecoin ''family'' = JSUndefined
   \<and> get Networks_test_litecoin ''messagePrefix'' = JSUndefined
   \<and> get Networks_test_kovan ''family'' = JSUndefined
   \<and> get Networks_test_ripple ''family'' = JSUndefined
   \<and> get Networks_test_stellar ''family'' = JSUndefined"
  by (simp add: network_defs)

text \<open>
  Claim C7. The catalog holds the parameters of the canonical table: for Bitcoin main and
  test, BitcoinGold main, Litecoin main and test, the fields \<open>bech32\<close>, \<open>bip32\<close>
  (\<open>public\<close> and \<open>private\<close>), \<open>pubKeyHash\<close>, \<open>scriptHash\<close> and \<open>wif\<close> of the stored
  network have the values of the table.
\<close>

theorem network_parameter_table:
  "(get Networks_main_bitcoin ''bech32'' = JSString ''bc''
    \<and> get Networks_main_bitcoin ''bip32'' =
        JSObject [(''public'', JSNumber 0x0488b21e), (''private'', JSNumber 0x0488ade4)]
    \<and> get Networks_main_bitcoin ''pubKeyHash'' = JSNumber 0x00
    \<and> get Networks_main_bitcoin ''scriptHash'' = JSNumber 0x05
    \<and> get Networks_main_bitcoin ''wif'' = JSNumber 0x80)
   \<and> (get Networks_test_bitcoin ''bech32'' = JSString ''tb''
    \<and> get Networks_test_bitcoin ''bip32'' =
        JSObject [(''public'', JSNumber 0x043587cf), (''private'', JSNumber 0x04358394)]
    \<and> get Networks_test_bitcoin ''pubKeyHash'' = JSNumber 0x6f
    \<and> get Networks_test_bitcoin ''scriptHash'' = JSNumber 0xc4
    \<and> get Networks_test_bitcoin ''wif'' = JSNumber 0xef)
   \<and> (get Networks_main_bitcoinGold ''bech32'' = JSString ''btg''
    \<and> get Networks_main_bitcoinGold ''bip32'' =
        JSObject [(''public'', JSNumber 0x0488b21e), (''private'', JSNumber 0x0488ade4)]
    \<and> get Networks_main_bitcoinGold ''pubKeyHash'' = JSNumber 0x26
    \<and> get Networks_main_bitcoinGold ''scriptHash'' = JSNumber 0x17
    \<and> get Networks_main_bitcoinGold ''wif'' = JSNumber 0x80)
   \<and> (get Networks_main_litecoin ''bech32'' = JSString ''ltc''
    \<and> get Networks_main_litecoin ''bip32'' =
        JSObject [(''public'', JSNumber 0x0488b21e), (''private'', JSNumber 0x0488ade4)]
    \<and> get Networks_main_litecoin ''pubKeyHash'' = JSNumber 0x30
    \<and> get Networks_main_litecoin ''scriptHash'' = JSNumber 0x32
    \<and> get Networks_main_litecoin ''wif'' = JSNumber 0xb0)
   \<and> (get Networks_test_litecoin ''bech32'' = JSString ''tltc''
    \<and> get Networks_test_litecoin ''bip32'' =
        JSObject [(''public'', JSNumber 0x0488b21e), (''private'', JSNumber 0x0488ade4)]
    \<and> get Networks_test_litecoin ''pubKeyHash'' = JSNumber 0x6f
    \<and> get Networks_test_litecoin ''scriptHash'' = JSNumber 0x3a
    \<and> get Networks_test_litecoin ''wif'' = JSNumber 0xb0)"
  by (intro conjI bitcoin_main_parameters bitcoin_test_parameters bitcoinGold_main_parameters
      litecoin_main_parameters litecoin_test_parameters)

text \<open>
  Claim C8 says that every testnet of the catalog has the family of its mainnet, and that
  the testnets of Bitcoin and Litecoin have the message prefix of their mainnets. The
  testnet classes read both from the prototype of the mainnet class
  (\<^verbatim>\<open>Bitcoin.prototype.family\<close>), where a field initialiser puts nothing: the mainnets
  hold their family and message prefix, and each of the five testnets holds
  \<^verbatim>\<open>undefined\<close> in their place.
\<close>

theorem testnet_family_and_prefix_undefined:
  "(get Networks_main_bitcoin ''family'' = JSString ''btc''
    \<and> get Networks_test_bitcoin ''family'' = JSUndefined
    \<and> get Networks_test_bitcoin ''family'' \<noteq> get Networks_main_bitcoin ''family'')
   \<and> (get Networks_main_bitcoin ''messagePrefix'' =
        JSString (CHR 0x18 # ''Bitcoin Signed Message:'' @ [CHR 0x0A])
    \<and> get Networks_test_bitcoin ''messagePrefix'' = JSUndefined
    \<and> get Networks_test_bitcoin ''messagePrefix'' \<noteq> get Networks_main_bitcoin ''messagePrefix'')
   \<and> (get Networks_main_litecoin ''family'' = JSString ''ltc''
    \<and> get Networks_test_litecoin ''family'' = JSUndefined
    \<and> get Networks_test_litecoin ''family'' \<noteq> get Networks_main_litecoin ''family'')
   \<and> (get Networks_main_litecoin ''messagePrefix'' =
        JSString (CHR 0x19 # ''Litecoin Signed Message:'' @ [CHR 0x0A])
    \<and> get Networks_test_litecoin ''messagePrefix'' = JSUndefined
    \<and> get Networks_test_litecoin ''messagePrefix'' \<noteq> get Networks_main_litecoin ''messagePrefix'')
   \<and> (get Networks_main_ethereum ''family'' = JSString ''eth''
    \<and> get Networks_test_kovan ''family'' = JSUndefined
    \<and> get Networks_test_kovan ''family'' \<noteq> get Networks_main_ethereum ''family'')
   \<and> (get Networks_main_ripple ''family'' = JSString ''xrp''
    \<and> get Networks_test_ripple ''family'' = JSUndefined
    \<and> get Networks_test_ripple ''family'' \<noteq> get Networks_main_ripple ''family'')
   \<and> (get Networks_main_stellar ''family'' = JSString ''xlm''
    \<and> get Networks_test_stellar ''family'' = JSUndefined
    \<and> get Networks_test_stellar ''family'' \<noteq> get Networks_main_stellar ''family'')"
  using mainnet_family_and_prefix testnet_family_and_prefix by simp

end
